theory Spec2Isabelle
  imports Main
begin

section \<open>Python values used by the admin layer\<close>

text \<open>
  Strings are lists of 8-bit characters; the string builtins below are Python's
  \<^verbatim>\<open>str.strip\<close>, \<^verbatim>\<open>str.upper\<close> and \<^verbatim>\<open>str(int)\<close> on the ASCII
  range, where a character is one code point.
\<close>

definition py_isspace :: "char \<Rightarrow> bool" where
  \<comment> \<open>\<^verbatim>\<open>str.isspace\<close> below code point 128: TAB, LF, VT, FF, CR, FS, GS, RS, US, space.\<close>
  "py_isspace c = ((of_char c :: nat) \<in> {9, 10, 11, 12, 13, 28, 29, 30, 31, 32})"

definition py_strip :: "string \<Rightarrow> string" where
  "py_strip s = rev (dropWhile py_isspace (rev (dropWhile py_isspace s)))"

definition digit_char :: "nat \<Rightarrow> char" where
  "digit_char d = ''0123456789'' ! (d mod 10)"

fun str_nat :: "nat \<Rightarrow> string" where
  "str_nat n = (if n < 10 then [digit_char n] else str_nat (n div 10) @ [digit_char (n mod 10)])"

declare str_nat.simps [simp del]

definition str_int :: "int \<Rightarrow> string" where
  "str_int i = (if i < 0 then CHR ''-'' # str_nat (nat (- i)) else str_nat (nat i))"

text \<open>\<^verbatim>\<open>datetime.date\<close> and \<^verbatim>\<open>datetime.datetime\<close>; dates compare field by field.\<close>

record date =
  year :: nat
  month :: nat
  day :: nat

definition date_lt :: "date \<Rightarrow> date \<Rightarrow> bool" where
  "date_lt a b =
     (year a < year b
      \<or> (year a = year b \<and> (month a < month b \<or> (month a = month b \<and> day a < day b))))"

record datetime =
  dt_date :: date
  hour :: nat
  minute :: nat
  second :: nat

section \<open>The relational store\<close>

text \<open>
  A table is the list of its rows. A Django \<^verbatim>\<open>QuerySet\<close> is lazy: it is the WHERE
  clause that is evaluated against the table when \<^verbatim>\<open>count\<close> or \<^verbatim>\<open>update\<close>
  runs, so it is a predicate on rows. \<^verbatim>\<open>update\<close> rewrites the rows that match and
  returns how many matched.
\<close>

type_synonym 'r queryset = "'r \<Rightarrow> bool"

definition qs_filter :: "'r queryset \<Rightarrow> ('r \<Rightarrow> bool) \<Rightarrow> 'r queryset" where
  "qs_filter qs cond = (\<lambda>r. qs r \<and> cond r)"

definition qs_exclude :: "'r queryset \<Rightarrow> ('r \<Rightarrow> bool) \<Rightarrow> 'r queryset" where
  "qs_exclude qs cond = (\<lambda>r. qs r \<and> \<not> cond r)"

definition qs_count :: "'r list \<Rightarrow> 'r queryset \<Rightarrow> nat" where
  "qs_count tbl qs = length (filter qs tbl)"

definition qs_update :: "'r list \<Rightarrow> 'r queryset \<Rightarrow> ('r \<Rightarrow> 'r) \<Rightarrow> 'r list \<times> nat" where
  "qs_update tbl qs f = (map (\<lambda>r. if qs r then f r else r) tbl, qs_count tbl qs)"

text \<open>
  Modelled from the spec: the model classes of \<^verbatim>\<open>catalog/models.py\<close>, which is not
  among the sources. The status sets are those of the data model; the fields are the
  ones the admin actions and the export read and write.
\<close>

datatype request_status = PENDING | APPROVED | REJECTED | CANCELLED | EXPIRED

datatype loan_state = BORROWED | RETURNED | OVERDUE

datatype item_state = AVAILABLE | RESERVED | LOANED | LOST | DAMAGED

record borrow_request =
  br_id :: int
  br_user :: int
  requested_from :: date
  requested_to :: date
  br_status :: request_status
  br_admin :: "int option"
  decision_at :: "datetime option"
  rejection_reason :: string

record loan =
  loan_id :: int
  loan_request :: int
  request_item :: int
  book_item :: int
  approved_from :: date
  due_date :: date
  loan_status :: loan_state
  returned_at :: "date option"

record user =
  user_pk :: int
  username :: string
  is_active :: bool

record db =
  requests :: "borrow_request list"
  loans :: "loan list"
  users :: "user list"

text \<open>
  The part of the HTTP request an action reads: the acting user and the POST data.
  Messages are returned beside the new store.
\<close>

record http_request =
  req_user :: int
  POST :: "string \<rightharpoonup> string"

datatype level = SUCCESS | ERROR | INFO

type_synonym message = "level \<times> string"

section \<open>User management actions\<close>

definition activate_users :: "http_request \<Rightarrow> user queryset \<Rightarrow> db \<Rightarrow> db \<times> message list" where
  "activate_users request queryset d =
     (let (rows, updated) = qs_update (users d) queryset (\<lambda>u. u\<lparr>is_active := True\<rparr>)
      in (d\<lparr>users := rows\<rparr>, [(SUCCESS, ''Activated '' @ str_nat updated @ '' user(s)'')]))"

definition deactivate_users :: "http_request \<Rightarrow> user queryset \<Rightarrow> db \<Rightarrow> db \<times> message list" where
  "deactivate_users request queryset d =
     (let qs = qs_exclude queryset (\<lambda>u. user_pk u = req_user request);
          skipped = int (qs_count (users d) queryset) - int (qs_count (users d) qs);
          (rows, updated) = qs_update (users d) qs (\<lambda>u. u\<lparr>is_active := False\<rparr>);
          msg = ''Deactivated '' @ str_nat updated @ '' user(s)'';
          msg' = (if skipped \<noteq> 0
                  then msg @ '' (skipped '' @ str_int skipped @ '' current user)'' else msg)
      in (d\<lparr>users := rows\<rparr>, [(SUCCESS, msg')]))"

section \<open>Borrow request actions\<close>

definition approve_selected ::
  "datetime \<Rightarrow> http_request \<Rightarrow> borrow_request queryset \<Rightarrow> db \<Rightarrow> db \<times> message list" where
  "approve_selected now request queryset d =
     (let pending = qs_filter queryset (\<lambda>r. br_status r = PENDING);
          (rows, updated) = qs_update (requests d) pending
             (\<lambda>r. r\<lparr>br_status := APPROVED, decision_at := Some now,
                     br_admin := Some (req_user request), rejection_reason := ''''\<rparr>)
      in (d\<lparr>requests := rows\<rparr>,
          [(SUCCESS, ''Approved '' @ str_nat updated @ '' request(s)'')]))"

definition reject_selected ::
  "datetime \<Rightarrow> http_request \<Rightarrow> borrow_request queryset \<Rightarrow> db \<Rightarrow> db \<times> message list" where
  "reject_selected now request queryset d =
     (let reason = py_strip (case POST request ''rejection_reason'' of
                               None \<Rightarrow> '''' | Some v \<Rightarrow> v)
      in if reason = '''' then
           (d, [(ERROR,
             ''Please provide a rejection reason in the action bar before rejecting.'')])
         else
           (let pending = qs_filter queryset (\<lambda>r. br_status r = PENDING);
                (rows, updated) = qs_update (requests d) pending
                   (\<lambda>r. r\<lparr>br_status := REJECTED, decision_at := Some now,
                           br_admin := Some (req_user request), rejection_reason := reason\<rparr>)
            in (d\<lparr>requests := rows\<rparr>,
                [(SUCCESS, ''Rejected '' @ str_nat updated @ '' request(s)'')])))"

definition mark_selected_expired ::
  "datetime \<Rightarrow> http_request \<Rightarrow> borrow_request queryset \<Rightarrow> db \<Rightarrow> db \<times> message list" where
  "mark_selected_expired now request queryset d =
     (let today = dt_date now;
          qs = qs_filter queryset
                 (\<lambda>r. br_status r = PENDING \<and> date_lt (requested_to r) today);
          (rows, updated) = qs_update (requests d) qs (\<lambda>r. r\<lparr>br_status := EXPIRED\<rparr>)
      in (d\<lparr>requests := rows\<rparr>,
          [if updated \<noteq> 0
           then (SUCCESS, ''Marked '' @ str_nat updated @ '' request(s) as expired'')
           else (INFO, ''No pending requests past their requested_to date'')]))"

text \<open>The changelist filter "Overdue (pending)" of the borrow requests.\<close>

definition OverdueRequestFilter_queryset ::
  "datetime \<Rightarrow> string option \<Rightarrow> borrow_request queryset \<Rightarrow> borrow_request queryset" where
  "OverdueRequestFilter_queryset now v queryset =
     (if v = Some ''yes'' then
        qs_filter queryset (\<lambda>r. br_status r = PENDING \<and> date_lt (requested_to r) (dt_date now))
      else if v = Some ''no'' then
        qs_exclude queryset (\<lambda>r. br_status r = PENDING \<and> date_lt (requested_to r) (dt_date now))
      else queryset)"

section \<open>Loan actions\<close>

definition mark_as_returned ::
  "datetime \<Rightarrow> http_request \<Rightarrow> loan queryset \<Rightarrow> db \<Rightarrow> db \<times> message list" where
  "mark_as_returned now request queryset d =
     (let (rows, updated) = qs_update (loans d) queryset
             (\<lambda>l. l\<lparr>loan_status := RETURNED, returned_at := Some (dt_date now)\<rparr>)
      in (d\<lparr>loans := rows\<rparr>,
          [(SUCCESS, ''Marked '' @ str_nat updated @ '' loan(s) as returned'')]))"

definition mark_overdue_due ::
  "datetime \<Rightarrow> http_request \<Rightarrow> loan queryset \<Rightarrow> db \<Rightarrow> db \<times> message list" where
  "mark_overdue_due now request queryset d =
     (let today = dt_date now;
          qs = qs_filter queryset (\<lambda>l. date_lt (due_date l) today \<and> loan_status l = BORROWED);
          (rows, updated) = qs_update (loans d) qs (\<lambda>l. l\<lparr>loan_status := OVERDUE\<rparr>)
      in (d\<lparr>loans := rows\<rparr>,
          [if updated \<noteq> 0
           then (SUCCESS, ''Marked '' @ str_nat updated @ '' loan(s) as overdue'')
           else (INFO, ''No borrowed loans past due date'')]))"

section \<open>Building the book query\<close>

text \<open>
  Python builtins used by \<^verbatim>\<open>catalog/utils/exports.py\<close>, again on ASCII text.
  An exception is a value: a function that can raise returns \<open>py_error + 'a\<close>.
\<close>

datatype py_error = ValueError | TypeError

definition bind_err :: "py_error + 'a \<Rightarrow> ('a \<Rightarrow> py_error + 'b) \<Rightarrow> py_error + 'b" where
  "bind_err r f = (case r of Inl e \<Rightarrow> Inl e | Inr x \<Rightarrow> f x)"

definition except_ValueError :: "py_error + 'a \<Rightarrow> 'a \<Rightarrow> py_error + 'a" where
  \<comment> \<open>\<^verbatim>\<open>try: return r  except ValueError: return h\<close>; any other exception propagates.\<close>
  "except_ValueError r h = (case r of Inl ValueError \<Rightarrow> Inr h | Inl e \<Rightarrow> Inl e | Inr x \<Rightarrow> Inr x)"

definition py_or :: "string option \<Rightarrow> string option \<Rightarrow> string option" where
  \<comment> \<open>\<^verbatim>\<open>a or b\<close> where both are \<^verbatim>\<open>None\<close> or a string: \<^verbatim>\<open>a\<close> if it is a non-empty string.\<close>
  "py_or a b = (case a of Some (c # cs) \<Rightarrow> a | _ \<Rightarrow> b)"

definition or_str :: "string option \<Rightarrow> string \<Rightarrow> string" where
  \<comment> \<open>\<^verbatim>\<open>a or "literal"\<close>.\<close>
  "or_str a d = (case a of Some (c # cs) \<Rightarrow> c # cs | _ \<Rightarrow> d)"

definition is_digit :: "char \<Rightarrow> bool" where
  "is_digit c = (48 \<le> (of_char c :: nat) \<and> (of_char c :: nat) \<le> 57)"

definition digit_val :: "char \<Rightarrow> nat" where
  "digit_val c = of_char c - 48"

definition is_lower :: "char \<Rightarrow> bool" where
  "is_lower c = (97 \<le> (of_char c :: nat) \<and> (of_char c :: nat) \<le> 122)"


definition to_upper :: "char \<Rightarrow> char" where
  "to_upper c = (if is_lower c then char_of ((of_char c :: nat) - 32) else c)"


definition py_upper :: "string \<Rightarrow> string" where
  "py_upper s = map to_upper s"

text \<open>
  \<^verbatim>\<open>int(s)\<close> in base 10: surrounding whitespace, an optional sign, then digits in which a
  single underscore may stand between two digits. Anything else raises ValueError.
\<close>

fun int_digits :: "nat \<Rightarrow> string \<Rightarrow> nat option" where
  "int_digits acc [] = Some acc"
| "int_digits acc (c # cs) =
     (if is_digit c then int_digits (10 * acc + digit_val c) cs
      else if c = CHR ''_'' then
        (case cs of
           [] \<Rightarrow> None
         | d # ds \<Rightarrow> if is_digit d then int_digits (10 * acc + digit_val d) ds else None)
      else None)"

definition int_literal :: "string \<Rightarrow> nat option" where
  "int_literal s =
     (case s of [] \<Rightarrow> None
      | c # cs \<Rightarrow> if is_digit c then int_digits (digit_val c) cs else None)"

definition py_int :: "string \<Rightarrow> py_error + int" where
  "py_int s =
     (let t = py_strip s;
          (neg, body) = (case t of
                           c # cs \<Rightarrow> if c = CHR ''-'' then (True, cs)
                                     else if c = CHR ''+'' then (False, cs) else (False, t)
                         | [] \<Rightarrow> (False, t))
      in case int_literal body of
           None \<Rightarrow> Inl ValueError
         | Some n \<Rightarrow> Inr (if neg then - int n else int n))"

text \<open>
  \<^verbatim>\<open>date.fromisoformat(s)\<close> for the format every Python 3 version accepts,
  \<^verbatim>\<open>YYYY-MM-DD\<close> with a valid calendar date. Anything else raises ValueError.
\<close>

definition is_leap :: "nat \<Rightarrow> bool" where
  "is_leap y = (y mod 4 = 0 \<and> (y mod 100 \<noteq> 0 \<or> y mod 400 = 0))"

definition days_in_month :: "nat \<Rightarrow> nat \<Rightarrow> nat" where
  "days_in_month y m =
     (if m = 2 then (if is_leap y then 29 else 28)
      else if m \<in> {4, 6, 9, 11} then 30 else 31)"

definition fromisoformat :: "string \<Rightarrow> py_error + date" where
  "fromisoformat s =
     (case s of
        [y1, y2, y3, y4, s1, m1, m2, s2, d1, d2] \<Rightarrow>
          if list_all is_digit [y1, y2, y3, y4, m1, m2, d1, d2]
             \<and> s1 = CHR ''-'' \<and> s2 = CHR ''-''
          then
            (let y = 1000 * digit_val y1 + 100 * digit_val y2 + 10 * digit_val y3 + digit_val y4;
                 m = 10 * digit_val m1 + digit_val m2;
                 d = 10 * digit_val d1 + digit_val d2
             in if 1 \<le> y \<and> 1 \<le> m \<and> m \<le> 12 \<and> 1 \<le> d \<and> d \<le> days_in_month y m
                then Inr \<lparr>year = y, month = m, day = d\<rparr>
                else Inl ValueError)
          else Inl ValueError
      | _ \<Rightarrow> Inl ValueError)"

text \<open>The two parsers of the module (\<^verbatim>\<open>_parse_int\<close>, \<^verbatim>\<open>_parse_date\<close>).\<close>

definition parse_int :: "string option \<Rightarrow> py_error + int option" where
  "parse_int val =
     except_ValueError
       (case val of
          None \<Rightarrow> Inr None
        | Some v \<Rightarrow> if v \<noteq> '''' then bind_err (py_int v) (\<lambda>n. Inr (Some n)) else Inr None)
       None"

definition parse_date :: "string option \<Rightarrow> py_error + date option" where
  "parse_date val =
     except_ValueError
       (case val of
          None \<Rightarrow> Inr None
        | Some v \<Rightarrow> if v \<noteq> '''' then bind_err (fromisoformat v) (\<lambda>d. Inr (Some d)) else Inr None)
       None"

text \<open>
  A lazy \<^verbatim>\<open>QuerySet[Book]\<close> is the description of the query it will run: the lookups
  added by \<^verbatim>\<open>filter\<close>, in order, the annotation and prefetch flags, \<^verbatim>\<open>distinct\<close> and
  the ordering key.
\<close>

datatype lookup =
    Search string
  | CategoriesId int
  | AuthorsId int
  | PublisherId int
  | PublishYearGte int
  | PublishYearLte int
  | LanguageCodeIexact string
  | ItemsStatus string
  | CreatedDateGte date
  | CreatedDateLte date

record book_query =
  lookups :: "lookup list"
  annotated :: bool
  prefetch_item_loans :: bool
  is_distinct :: bool
  ordering :: "string option"

definition Book_objects_all :: book_query where
  "Book_objects_all = \<lparr>lookups = [], annotated = False, prefetch_item_loans = False,
                        is_distinct = False, ordering = None\<rparr>"

definition book_filter :: "lookup \<Rightarrow> book_query \<Rightarrow> book_query" where
  "book_filter l qs = qs\<lparr>lookups := lookups qs @ [l]\<rparr>"

definition annotate_book_metrics :: "book_query \<Rightarrow> bool \<Rightarrow> book_query" where
  "annotate_book_metrics qs include_items =
     (let qs = qs\<lparr>annotated := True\<rparr>
      in if include_items then qs\<lparr>prefetch_item_loans := True\<rparr> else qs)"

definition item_statuses :: "string list" where
  "item_statuses = [''AVAILABLE'', ''RESERVED'', ''LOANED'', ''LOST'', ''DAMAGED'']"

definition allowed_sorts :: "string list" where
  "allowed_sorts = [''title'', ''-title'', ''created_at'', ''-created_at'',
                    ''publish_year'', ''-publish_year'']"

definition filter_if :: "bool \<Rightarrow> lookup \<Rightarrow> book_query \<Rightarrow> book_query" where
  \<comment> \<open>\<^verbatim>\<open>if cond: qs = qs.filter(l)\<close>\<close>
  "filter_if cond l qs = (if cond then book_filter l qs else qs)"

definition filter_some :: "'a option \<Rightarrow> ('a \<Rightarrow> lookup) \<Rightarrow> book_query \<Rightarrow> book_query" where
  \<comment> \<open>\<^verbatim>\<open>if v is not None: qs = qs.filter(key=v)\<close>\<close>
  "filter_some v key qs = (case v of Some x \<Rightarrow> book_filter (key x) qs | None \<Rightarrow> qs)"

definition build_book_queryset :: "(string \<rightharpoonup> string) \<Rightarrow> bool \<Rightarrow> py_error + book_query" where
  "build_book_queryset params include_items =
     (let qs = annotate_book_metrics Book_objects_all include_items;
          q = py_strip (or_str (params ''q'') '''');
          qs = filter_if (q \<noteq> '''') (Search q) qs
      in
      bind_err (parse_int (py_or (params ''category_id'')
                  (py_or (params ''categories__id__exact'') (params ''category__id__exact''))))
        (\<lambda>category_id.
      let qs = filter_some category_id CategoriesId qs in
      bind_err (parse_int (py_or (params ''author_id'')
                  (py_or (params ''authors__id__exact'') (params ''author__id__exact''))))
        (\<lambda>author_id.
      let qs = filter_some author_id AuthorsId qs in
      bind_err (parse_int (py_or (params ''publisher_id'') (params ''publisher__id__exact'')))
        (\<lambda>publisher_id.
      let qs = filter_some publisher_id PublisherId qs in
      bind_err (parse_int (py_or (params ''publish_year_from'')
                  (py_or (params ''publish_year__gte'') (params ''publish_year''))))
        (\<lambda>y_from.
      let qs = filter_some y_from PublishYearGte qs in
      bind_err (parse_int (py_or (params ''publish_year_to'')
                  (py_or (params ''publish_year__lte'') (params ''publish_year''))))
        (\<lambda>y_to.
      let qs = filter_some y_to PublishYearLte qs;
          lang = py_strip (or_str (py_or (params ''language'')
                    (py_or (params ''language_code'') (params ''language_code__exact''))) '''');
          qs = filter_if (lang \<noteq> '''') (LanguageCodeIexact lang) qs;
          item_status = py_upper (py_strip (or_str (py_or (params ''item_status'')
                    (py_or (params ''items__status'') (params ''items__status__exact''))) ''''));
          qs = filter_if (item_status \<in> set item_statuses) (ItemsStatus item_status) qs
      in
      bind_err (parse_date (Some (py_strip (or_str (py_or (params ''created_from'')
                  (params ''created_at__date__gte'')) ''''))))
        (\<lambda>c_from.
      let qs = filter_some c_from CreatedDateGte qs in
      bind_err (parse_date (Some (py_strip (or_str (py_or (params ''created_to'')
                  (params ''created_at__date__lte'')) ''''))))
        (\<lambda>c_to.
      let qs = filter_some c_to CreatedDateLte qs;
          qs = qs\<lparr>is_distinct := True\<rparr>;
          sort = py_strip (or_str (params ''sort'') ''title'');
          sort = (if sort \<notin> set allowed_sorts then ''title'' else sort)
      in Inr (qs\<lparr>ordering := Some sort\<rparr>)))))))))"

text \<open>The \<^verbatim>\<open>items__status\<close> lookups of a query, for reading off whether that filter was applied.\<close>

definition items_status_lookups :: "book_query \<Rightarrow> string list" where
  "items_status_lookups qs =
     concat (map (\<lambda>l. case l of ItemsStatus s \<Rightarrow> [s] | _ \<Rightarrow> []) (lookups qs))"

text \<open>The value the item-status filter reads: the first non-empty of its three parameter names.\<close>

definition item_status_param :: "(string \<rightharpoonup> string) \<Rightarrow> string" where
  "item_status_param params =
     or_str (py_or (params ''item_status'')
               (py_or (params ''items__status'') (params ''items__status__exact''))) ''''"

section \<open>The admin site as a transition system\<close>

text \<open>
  The book items that BORROWED loans point to, one entry per loan. The data model's
  invariant "at most one active loan per book item" says this list has no duplicates.
\<close>

definition borrowed_items :: "loan list \<Rightarrow> int list" where
  "borrowed_items ls = map book_item (filter (\<lambda>l. loan_status l = BORROWED) ls)"

definition one_active_loan :: "db \<Rightarrow> bool" where
  "one_active_loan d = distinct (borrowed_items (loans d))"

text \<open>
  Modelled from the spec: the creation of a loan. No source file creates loans; the
  workflow that does ("approval spawns loan records tied to specific physical copies",
  "loan created against available item") lies outside them. By the data model a book item
  has at most one BORROWED loan at a time, so a BORROWED loan for an item that already has
  one is refused and the store stays as it is; any other loan is added to the table.
\<close>

definition create_loan :: "loan \<Rightarrow> db \<Rightarrow> db" where
  "create_loan l d =
     (if loan_status l = BORROWED \<and> book_item l \<in> set (borrowed_items (loans d)) then d
      else d\<lparr>loans := loans d @ [l]\<rparr>)"

text \<open>
  The bulk actions the admin classes list in \<^verbatim>\<open>actions = [...]\<close>, and the creation of a
  loan. Each run of an action carries the request that triggered it and the rows that were
  ticked; the clock is read when it runs.
\<close>

datatype admin_action =
    CreateLoan loan
  | ActivateUsers http_request "user queryset"
  | DeactivateUsers http_request "user queryset"
  | ApproveSelected http_request "borrow_request queryset"
  | RejectSelected http_request "borrow_request queryset"
  | MarkSelectedExpired http_request "borrow_request queryset"
  | MarkAsReturned http_request "loan queryset"
  | MarkOverdueDue http_request "loan queryset"

fun run_action :: "datetime \<Rightarrow> admin_action \<Rightarrow> db \<Rightarrow> db \<times> message list" where
  "run_action now (CreateLoan l) d = (create_loan l d, [])"
| "run_action now (ActivateUsers rq qs) d = activate_users rq qs d"
| "run_action now (DeactivateUsers rq qs) d = deactivate_users rq qs d"
| "run_action now (ApproveSelected rq qs) d = approve_selected now rq qs d"
| "run_action now (RejectSelected rq qs) d = reject_selected now rq qs d"
| "run_action now (MarkSelectedExpired rq qs) d = mark_selected_expired now rq qs d"
| "run_action now (MarkAsReturned rq qs) d = mark_as_returned now rq qs d"
| "run_action now (MarkOverdueDue rq qs) d = mark_overdue_due now rq qs d"

fun run_actions :: "(datetime \<times> admin_action) list \<Rightarrow> db \<Rightarrow> db" where
  "run_actions [] d = d"
| "run_actions ((now, a) # as) d = run_actions as (fst (run_action now a d))"

text \<open>\<^verbatim>\<open>item.loans.all()\<close>: the loans whose foreign key is the given book item.\<close>

definition item_loans_of :: "db \<Rightarrow> int \<Rightarrow> loan list" where
  "item_loans_of d b = filter (\<lambda>l. book_item l = b) (loans d)"

text \<open>
  The export's lookup of an item's current loan:
  \<^verbatim>\<open>next((ln for ln in item.loans.all() if ln.status == "BORROWED"), None)\<close>.
\<close>

definition current_loan :: "loan list \<Rightarrow> loan option" where
  "current_loan ls = find (\<lambda>ln. loan_status ln = BORROWED) ls"

section \<open>Rendering the workbook\<close>


record item =
  barcode :: string
  item_status :: item_state
  location_code :: "string option"
  item_created_at :: "datetime option"
  item_loans :: "loan list"




























section \<open>Sample data\<close>

definition all_rows :: "'r queryset" where
  "all_rows = (\<lambda>r. True)"

definition ex_now :: datetime where
  "ex_now = \<lparr>dt_date = \<lparr>year = 2024, month = 6, day = 15\<rparr>, hour = 9, minute = 30, second = 0\<rparr>"

definition ex_pending :: borrow_request where
  "ex_pending = \<lparr>br_id = 1, br_user = 7,
     requested_from = \<lparr>year = 2024, month = 6, day = 1\<rparr>,
     requested_to = \<lparr>year = 2024, month = 6, day = 10\<rparr>,
     br_status = PENDING, br_admin = None, decision_at = None, rejection_reason = ''''\<rparr>"

definition ex_approved :: borrow_request where
  "ex_approved = \<lparr>br_id = 2, br_user = 7,
     requested_from = \<lparr>year = 2024, month = 5, day = 1\<rparr>,
     requested_to = \<lparr>year = 2024, month = 5, day = 15\<rparr>,
     br_status = APPROVED, br_admin = Some 1,
     decision_at = Some \<lparr>dt_date = \<lparr>year = 2024, month = 4, day = 30\<rparr>,
                          hour = 8, minute = 0, second = 0\<rparr>,
     rejection_reason = ''''\<rparr>"

definition ex_pending_future :: borrow_request where
  "ex_pending_future = \<lparr>br_id = 3, br_user = 7,
     requested_from = \<lparr>year = 2024, month = 6, day = 14\<rparr>,
     requested_to = \<lparr>year = 2024, month = 6, day = 20\<rparr>,
     br_status = PENDING, br_admin = None, decision_at = None, rejection_reason = ''''\<rparr>"

definition ex_loan_due :: loan where
  "ex_loan_due = \<lparr>loan_id = 1, loan_request = 2, request_item = 1, book_item = 5,
     approved_from = \<lparr>year = 2024, month = 5, day = 1\<rparr>,
     due_date = \<lparr>year = 2024, month = 5, day = 15\<rparr>,
     loan_status = BORROWED, returned_at = None\<rparr>"

definition ex_loan_running :: loan where
  "ex_loan_running = \<lparr>loan_id = 2, loan_request = 2, request_item = 2, book_item = 6,
     approved_from = \<lparr>year = 2024, month = 6, day = 1\<rparr>,
     due_date = \<lparr>year = 2024, month = 7, day = 1\<rparr>,
     loan_status = BORROWED, returned_at = None\<rparr>"

definition ex_loan_new :: loan where
  "ex_loan_new = \<lparr>loan_id = 3, loan_request = 2, request_item = 3, book_item = 9,
     approved_from = \<lparr>year = 2024, month = 6, day = 15\<rparr>,
     due_date = \<lparr>year = 2024, month = 6, day = 29\<rparr>,
     loan_status = BORROWED, returned_at = None\<rparr>"

definition ex_loan_clash :: loan where
  "ex_loan_clash = \<lparr>loan_id = 4, loan_request = 2, request_item = 4, book_item = 6,
     approved_from = \<lparr>year = 2024, month = 6, day = 15\<rparr>,
     due_date = \<lparr>year = 2024, month = 6, day = 29\<rparr>,
     loan_status = BORROWED, returned_at = None\<rparr>"

definition ex_admin :: user where
  "ex_admin = \<lparr>user_pk = 1, username = ''admin'', is_active = True\<rparr>"

definition ex_member :: user where
  "ex_member = \<lparr>user_pk = 7, username = ''reader'', is_active = True\<rparr>"

definition ex_db :: db where
  "ex_db = \<lparr>requests = [ex_pending, ex_approved, ex_pending_future],
            loans = [ex_loan_due, ex_loan_running],
            users = [ex_admin, ex_member]\<rparr>"

definition ex_db_fresh :: db where
  "ex_db_fresh = \<lparr>requests = [ex_pending], loans = [], users = [ex_admin, ex_member]\<rparr>"

definition ex_request :: http_request where
  "ex_request = \<lparr>req_user = 1, POST = Map.empty\<rparr>"

definition ex_request_blank :: http_request where
  "ex_request_blank = \<lparr>req_user = 1, POST = [''rejection_reason'' \<mapsto> ''  '']\<rparr>"





definition ex_params :: "string \<rightharpoonup> string" where
  "ex_params = [''item_status'' \<mapsto> '' lost '', ''category_id'' \<mapsto> ''abc'',
                ''created_from'' \<mapsto> ''2024-13-01'', ''sort'' \<mapsto> ''price'']"

definition ex_params_bad_status :: "string \<rightharpoonup> string" where
  "ex_params_bad_status = [''item_status'' \<mapsto> ''SOLD'', ''sort'' \<mapsto> ''-title'']"

section \<open>Properties of the store operations\<close>

lemma qs_update_length: "length (fst (qs_update tbl qs f)) = length tbl"
  by (simp add: qs_update_def)

lemma qs_update_nth:
  "i < length tbl \<Longrightarrow>
     fst (qs_update tbl qs f) ! i = (if qs (tbl ! i) then f (tbl ! i) else tbl ! i)"
  by (simp add: qs_update_def)

lemma approve_requests:
  "requests (fst (approve_selected now rq qs d)) =
     fst (qs_update (requests d) (qs_filter qs (\<lambda>r. br_status r = PENDING))
       (\<lambda>r. r\<lparr>br_status := APPROVED, decision_at := Some now,
               br_admin := Some (req_user rq), rejection_reason := ''''\<rparr>))"
  by (simp add: approve_selected_def Let_def split: prod.splits)

lemma reject_requests:
  "requests (fst (reject_selected now rq qs d)) =
     (let reason = py_strip (case POST rq ''rejection_reason'' of None \<Rightarrow> '''' | Some v \<Rightarrow> v)
      in if reason = '''' then requests d
         else fst (qs_update (requests d) (qs_filter qs (\<lambda>r. br_status r = PENDING))
           (\<lambda>r. r\<lparr>br_status := REJECTED, decision_at := Some now,
                   br_admin := Some (req_user rq), rejection_reason := reason\<rparr>)))"
  by (simp add: reject_selected_def Let_def split: prod.splits)

lemma expired_requests:
  "requests (fst (mark_selected_expired now rq qs d)) =
     fst (qs_update (requests d)
       (qs_filter qs (\<lambda>r. br_status r = PENDING \<and> date_lt (requested_to r) (dt_date now)))
       (\<lambda>r. r\<lparr>br_status := EXPIRED\<rparr>))"
  by (simp add: mark_selected_expired_def Let_def split: prod.splits)

lemma loans_unchanged_requests:
  "loans (fst (approve_selected now rq qs d)) = loans d"
  "loans (fst (reject_selected now rq qs d)) = loans d"
  "loans (fst (mark_selected_expired now rq qs d)) = loans d"
  by (simp_all add: approve_selected_def reject_selected_def mark_selected_expired_def Let_def
        split: prod.splits)

lemma loans_unchanged_users:
  "loans (fst (activate_users rq qs' d)) = loans d"
  "loans (fst (deactivate_users rq qs' d)) = loans d"
  by (simp_all add: activate_users_def deactivate_users_def Let_def split: prod.splits)

lemma returned_loans:
  "loans (fst (mark_as_returned now rq qs d)) =
     fst (qs_update (loans d) qs
       (\<lambda>l. l\<lparr>loan_status := RETURNED, returned_at := Some (dt_date now)\<rparr>))"
  by (simp add: mark_as_returned_def Let_def split: prod.splits)

lemma overdue_loans:
  "loans (fst (mark_overdue_due now rq qs d)) =
     fst (qs_update (loans d)
        (qs_filter qs (\<lambda>l. date_lt (due_date l) (dt_date now) \<and> loan_status l = BORROWED))
        (\<lambda>l. l\<lparr>loan_status := OVERDUE\<rparr>))"
  by (simp add: mark_overdue_due_def Let_def split: prod.splits)

lemma deactivated_users:
  "users (fst (deactivate_users rq qs d)) =
     fst (qs_update (users d) (qs_exclude qs (\<lambda>u. user_pk u = req_user rq))
        (\<lambda>u. u\<lparr>is_active := False\<rparr>))"
  by (simp add: deactivate_users_def Let_def split: prod.splits)

lemma find_SomeD: "find P xs = Some x \<Longrightarrow> P x \<and> x \<in> set xs"
  by (induction xs) (auto split: if_splits)

lemma borrowed_items_shrink:
  assumes "\<And>l. book_item (g l) = book_item l"
    and "\<And>l. loan_status (g l) = BORROWED \<Longrightarrow> loan_status l = BORROWED"
  shows "set (borrowed_items (map g ls)) \<subseteq> set (borrowed_items ls)
       \<and> (distinct (borrowed_items ls) \<longrightarrow> distinct (borrowed_items (map g ls)))"
proof (induction ls)
  case Nil
  show ?case by (simp add: borrowed_items_def)
next
  case (Cons l ls)
  have sub: "set (borrowed_items (map g ls)) \<subseteq> set (borrowed_items ls)"
    using Cons.IH by simp
  show ?case
  proof (cases "loan_status (g l) = BORROWED")
    case True
    then have "loan_status l = BORROWED" by (rule assms(2))
    with True sub Cons.IH show ?thesis
      by (auto simp: borrowed_items_def assms(1))
  next
    case False
    with sub Cons.IH show ?thesis
      by (auto simp: borrowed_items_def)
  qed
qed

lemma borrowed_items_distinct_map:
  assumes "\<And>l. book_item (g l) = book_item l"
    and "\<And>l. loan_status (g l) = BORROWED \<Longrightarrow> loan_status l = BORROWED"
    and "distinct (borrowed_items ls)"
  shows "distinct (borrowed_items (map g ls))"
  using borrowed_items_shrink[of g ls, OF assms(1,2)] assms(3) by simp

lemma create_loan_inv:
  assumes "one_active_loan d"
  shows "one_active_loan (create_loan l d)"
proof (cases "loan_status l = BORROWED \<and> book_item l \<in> set (borrowed_items (loans d))")
  case True
  with assms show ?thesis by (simp add: create_loan_def)
next
  case False
  have "borrowed_items (loans d @ [l]) =
          borrowed_items (loans d) @ (if loan_status l = BORROWED then [book_item l] else [])"
    by (simp add: borrowed_items_def)
  with False assms show ?thesis
    by (auto simp: create_loan_def one_active_loan_def)
qed

lemma run_action_inv:
  assumes "one_active_loan d"
  shows "one_active_loan (fst (run_action now a d))"
proof (cases a)
  case (CreateLoan l)
  with assms show ?thesis by (simp add: create_loan_inv)
next
  case (MarkAsReturned rq qs)
  let ?g = "\<lambda>r. if qs r then r\<lparr>loan_status := RETURNED, returned_at := Some (dt_date now)\<rparr>
                 else r"
  have "distinct (borrowed_items (map ?g (loans d)))"
  proof (rule borrowed_items_distinct_map)
    show "\<And>l. book_item (?g l) = book_item l" by simp
    show "\<And>l. loan_status (?g l) = BORROWED \<Longrightarrow> loan_status l = BORROWED"
      by (simp split: if_splits)
    show "distinct (borrowed_items (loans d))" using assms by (simp add: one_active_loan_def)
  qed
  then show ?thesis using MarkAsReturned
    by (simp add: one_active_loan_def returned_loans qs_update_def)
next
  case (MarkOverdueDue rq qs)
  let ?q = "qs_filter qs (\<lambda>l. date_lt (due_date l) (dt_date now) \<and> loan_status l = BORROWED)"
  let ?g = "\<lambda>r. if ?q r then r\<lparr>loan_status := OVERDUE\<rparr> else r"
  have "distinct (borrowed_items (map ?g (loans d)))"
  proof (rule borrowed_items_distinct_map)
    show "\<And>l. book_item (?g l) = book_item l" by simp
    show "\<And>l. loan_status (?g l) = BORROWED \<Longrightarrow> loan_status l = BORROWED"
      by (simp split: if_splits)
    show "distinct (borrowed_items (loans d))" using assms by (simp add: one_active_loan_def)
  qed
  then show ?thesis using MarkOverdueDue
    by (simp add: one_active_loan_def overdue_loans qs_update_def)
qed (use assms in \<open>simp_all add: one_active_loan_def loans_unchanged_requests
      loans_unchanged_users\<close>)

lemma run_actions_inv:
  "one_active_loan d \<Longrightarrow> one_active_loan (run_actions acts d)"
proof (induction acts arbitrary: d)
  case Nil
  then show ?case by simp
next
  case (Cons p acts)
  obtain now a where p: "p = (now, a)" by (cases p)
  from Cons.prems have "one_active_loan (fst (run_action now a d))"
    by (rule run_action_inv)
  then show ?case using Cons.IH p by simp
qed

lemma current_loan_unique:
  assumes "one_active_loan d" and "l \<in> set (loans d)" and "loan_status l = BORROWED"
  shows "current_loan (item_loans_of d (book_item l)) = Some l"
proof -
  let ?ls = "item_loans_of d (book_item l)"
  have "l \<in> set ?ls" using assms(2) by (simp add: item_loans_of_def)
  then have "\<exists>x \<in> set ?ls. loan_status x = BORROWED" using assms(3) by blast
  then have "current_loan ?ls \<noteq> None"
    by (auto simp: current_loan_def find_None_iff)
  then obtain l' where f: "current_loan ?ls = Some l'" by auto
  then have l': "l' \<in> set (loans d)" "loan_status l' = BORROWED" "book_item l' = book_item l"
    by (auto simp: current_loan_def item_loans_of_def dest: find_SomeD)
  have "inj_on book_item (set (filter (\<lambda>l. loan_status l = BORROWED) (loans d)))"
    using assms(1) by (simp add: one_active_loan_def borrowed_items_def distinct_map)
  then have "l' = l" using l' assms(2,3) by (auto dest: inj_onD)
  with f show ?thesis by simp
qed

lemma distinct_filter_eq_le1:
  "distinct xs \<Longrightarrow> length (filter (\<lambda>x. x = b) xs) \<le> Suc 0"
proof (induction xs)
  case Nil
  then show ?case by simp
next
  case (Cons x xs)
  show ?case
  proof (cases "x = b")
    case True
    with Cons.prems have "b \<notin> set xs" by simp
    then have "filter (\<lambda>x. x = b) xs = []" by (auto simp: filter_empty_conv)
    with True show ?thesis by simp
  next
    case False
    with Cons show ?thesis by simp
  qed
qed

lemma length_active_loans:
  "length (filter (\<lambda>ln. loan_status ln = BORROWED) (filter (\<lambda>l. book_item l = b) ls))
     = length (filter (\<lambda>x. x = b) (borrowed_items ls))"
  unfolding borrowed_items_def by (induction ls) auto

lemma active_loans_le1:
  assumes "one_active_loan d"
  shows "length (filter (\<lambda>ln. loan_status ln = BORROWED) (item_loans_of d b)) \<le> Suc 0"
proof -
  have "distinct (borrowed_items (loans d))"
    using assms by (simp add: one_active_loan_def)
  then have "length (filter (\<lambda>x. x = b) (borrowed_items (loans d))) \<le> Suc 0"
    by (rule distinct_filter_eq_le1)
  then show ?thesis
    unfolding item_loans_of_def length_active_loans .
qed

section \<open>Borrow request lifecycle\<close>

text \<open>
  C1. None of the three bulk actions on borrow requests changes a request whose status is
  not PENDING: an APPROVED, REJECTED, CANCELLED or EXPIRED request is the same row after
  \<open>approve_selected\<close>, \<open>reject_selected\<close> and \<open>mark_selected_expired\<close>, whatever was selected.
\<close>

theorem bulk_actions_change_only_pending:
  assumes "i < length (requests d)" and "br_status (requests d ! i) \<noteq> PENDING"
  shows "requests (fst (approve_selected now rq qs d)) ! i = requests d ! i
       \<and> requests (fst (reject_selected now rq qs d)) ! i = requests d ! i
       \<and> requests (fst (mark_selected_expired now rq qs d)) ! i = requests d ! i"
  using assms
  by (simp add: approve_requests reject_requests expired_requests qs_update_nth
      qs_filter_def Let_def)

theorem bulk_actions_change_only_pending_witness:
  "1 < length (requests ex_db) \<and> br_status (requests ex_db ! 1) \<noteq> PENDING
   \<and> requests (fst (approve_selected ex_now ex_request all_rows ex_db)) ! 1 = ex_approved
   \<and> requests (fst (reject_selected ex_now ex_request all_rows ex_db)) ! 1 = ex_approved
   \<and> requests (fst (mark_selected_expired ex_now ex_request all_rows ex_db)) ! 1 = ex_approved"
  using bulk_actions_change_only_pending [of 1 ex_db ex_now ex_request all_rows]
  by (simp add: ex_db_def ex_approved_def)

text \<open>
  C2, as the code has it. \<open>approve_selected\<close> is a bulk update of the request table: each
  selected PENDING request becomes APPROVED, with the decision time, the deciding admin
  and an empty rejection reason; every other request is unchanged, and the loan table is
  the one it was. No loan record is created by the action.
\<close>

theorem approve_selected_creates_no_loan:
  "loans (fst (approve_selected now rq qs d)) = loans d
   \<and> users (fst (approve_selected now rq qs d)) = users d
   \<and> length (requests (fst (approve_selected now rq qs d))) = length (requests d)
   \<and> (\<forall>i < length (requests d).
        requests (fst (approve_selected now rq qs d)) ! i =
          (if qs (requests d ! i) \<and> br_status (requests d ! i) = PENDING
           then (requests d ! i)\<lparr>br_status := APPROVED, decision_at := Some now,
                   br_admin := Some (req_user rq), rejection_reason := ''''\<rparr>
           else requests d ! i))"
  by (simp add: loans_unchanged_requests approve_requests qs_update_length qs_update_nth
        qs_filter_def)
     (simp add: approve_selected_def Let_def split: prod.splits)

theorem approve_selected_creates_no_loan_witness:
  "loans (fst (approve_selected ex_now ex_request all_rows ex_db)) = [ex_loan_due, ex_loan_running]
   \<and> requests (fst (approve_selected ex_now ex_request all_rows ex_db)) ! 0 =
       ex_pending\<lparr>br_status := APPROVED, decision_at := Some ex_now,
                   br_admin := Some 1, rejection_reason := ''''\<rparr>"
  using approve_selected_creates_no_loan [of ex_now ex_request all_rows ex_db]
  by (simp add: ex_db_def all_rows_def ex_pending_def ex_request_def)

text \<open>
  C2, as the claim states it, fails: on a store with one pending request and no loans,
  approving the request leaves the loan table empty.
\<close>

theorem approval_spawns_no_loan_counterexample:
  "br_status (requests ex_db_fresh ! 0) = PENDING
   \<and> br_status (requests (fst (approve_selected ex_now ex_request all_rows ex_db_fresh)) ! 0)
       = APPROVED
   \<and> loans (fst (approve_selected ex_now ex_request all_rows ex_db_fresh)) = []"
  by (simp add: approve_selected_def qs_update_def qs_filter_def qs_count_def all_rows_def
      ex_db_fresh_def ex_pending_def Let_def)

text \<open>
  C3. \<open>mark_selected_expired\<close> sets a selected request to EXPIRED exactly when it is
  PENDING and its \<open>requested_to\<close> is strictly before today; otherwise the row is unchanged.
  So a request that is EXPIRED afterwards either was EXPIRED already or was PENDING with
  its end date passed. The rows it expires are those the changelist filter
  "Overdue (pending)" shows.
\<close>

theorem expired_exactly_pending_and_past:
  assumes "i < length (requests d)"
  shows "(qs (requests d ! i) \<longrightarrow>
            requests (fst (mark_selected_expired now rq qs d)) ! i =
              (if br_status (requests d ! i) = PENDING
                  \<and> date_lt (requested_to (requests d ! i)) (dt_date now)
               then (requests d ! i)\<lparr>br_status := EXPIRED\<rparr> else requests d ! i))
       \<and> (br_status (requests (fst (mark_selected_expired now rq qs d)) ! i) = EXPIRED \<longrightarrow>
            br_status (requests d ! i) = EXPIRED
            \<or> (br_status (requests d ! i) = PENDING
                \<and> date_lt (requested_to (requests d ! i)) (dt_date now)))
       \<and> (OverdueRequestFilter_queryset now (Some ''yes'') qs (requests d ! i) \<longleftrightarrow>
            qs (requests d ! i) \<and> br_status (requests d ! i) = PENDING
            \<and> date_lt (requested_to (requests d ! i)) (dt_date now))"
  using assms
  by (simp add: expired_requests qs_update_nth qs_filter_def OverdueRequestFilter_queryset_def)

theorem expired_exactly_pending_and_past_witness:
  "0 < length (requests ex_db) \<and> all_rows (requests ex_db ! 0)
   \<and> 2 < length (requests ex_db) \<and> all_rows (requests ex_db ! 2)
   \<and> requests (fst (mark_selected_expired ex_now ex_request all_rows ex_db)) ! 0
        = ex_pending\<lparr>br_status := EXPIRED\<rparr>
   \<and> requests (fst (mark_selected_expired ex_now ex_request all_rows ex_db)) ! 2
        = ex_pending_future"
  using expired_exactly_pending_and_past [of 0 ex_db all_rows ex_now ex_request]
    expired_exactly_pending_and_past [of 2 ex_db all_rows ex_now ex_request]
  by (simp add: ex_db_def all_rows_def ex_pending_def ex_pending_future_def ex_now_def date_lt_def)

text \<open>
  C8. When the rejection reason is empty after stripping, \<open>reject_selected\<close> returns the
  store it was given, so no field of any request changes, and its only message is an error.
\<close>

theorem reject_without_reason_changes_nothing:
  assumes "py_strip (case POST rq ''rejection_reason'' of None \<Rightarrow> '''' | Some v \<Rightarrow> v) = ''''"
  shows "fst (reject_selected now rq qs d) = d
       \<and> map fst (snd (reject_selected now rq qs d)) = [ERROR]"
  using assms by (simp add: reject_selected_def)

theorem reject_without_reason_changes_nothing_witness:
  "py_strip (case POST ex_request_blank ''rejection_reason'' of None \<Rightarrow> '''' | Some v \<Rightarrow> v) = ''''
   \<and> fst (reject_selected ex_now ex_request_blank all_rows ex_db) = ex_db
   \<and> map fst (snd (reject_selected ex_now ex_request_blank all_rows ex_db)) = [ERROR]"
  using reject_without_reason_changes_nothing [of ex_request_blank ex_now all_rows ex_db]
  by (simp add: ex_request_blank_def py_strip_def py_isspace_def)

section \<open>Loans\<close>

text \<open>
  C4. Loan creation as the data model describes it and every bulk action of the admin
  site keep the invariant that no two BORROWED loans reference the same book item: from a
  store that satisfies it, every store reached by running them satisfies it. In such a
  store each book item has at most one BORROWED loan, and the export's lookup of the first
  BORROWED loan of an item returns that loan.
\<close>

theorem one_active_loan_invariant:
  assumes "one_active_loan d"
  shows "one_active_loan (run_actions acts d)
       \<and> (\<forall>b. length (filter (\<lambda>ln. loan_status ln = BORROWED)
                      (item_loans_of (run_actions acts d) b)) \<le> 1)
       \<and> (\<forall>l \<in> set (loans (run_actions acts d)). loan_status l = BORROWED \<longrightarrow>
            current_loan (item_loans_of (run_actions acts d) (book_item l)) = Some l)"
  using assms run_actions_inv[OF assms, of acts] current_loan_unique[of "run_actions acts d"]
    active_loans_le1[of "run_actions acts d"] by auto

theorem one_active_loan_invariant_witness:
  "one_active_loan ex_db
   \<and> one_active_loan (run_actions [(ex_now, CreateLoan ex_loan_new),
         (ex_now, CreateLoan ex_loan_clash), (ex_now, MarkOverdueDue ex_request all_rows),
         (ex_now, ApproveSelected ex_request all_rows)] ex_db)
   \<and> current_loan (item_loans_of (run_actions [(ex_now, CreateLoan ex_loan_new),
         (ex_now, CreateLoan ex_loan_clash), (ex_now, MarkOverdueDue ex_request all_rows),
         (ex_now, ApproveSelected ex_request all_rows)] ex_db) 6) = Some ex_loan_running
   \<and> current_loan (item_loans_of (run_actions [(ex_now, CreateLoan ex_loan_new),
         (ex_now, CreateLoan ex_loan_clash), (ex_now, MarkOverdueDue ex_request all_rows),
         (ex_now, ApproveSelected ex_request all_rows)] ex_db) 9) = Some ex_loan_new"
  using one_active_loan_invariant [of ex_db "[(ex_now, CreateLoan ex_loan_new),
         (ex_now, CreateLoan ex_loan_clash), (ex_now, MarkOverdueDue ex_request all_rows),
         (ex_now, ApproveSelected ex_request all_rows)]"]
  by (simp add: one_active_loan_def borrowed_items_def ex_db_def ex_loan_due_def
      ex_loan_running_def ex_loan_new_def ex_loan_clash_def create_loan_def
      mark_overdue_due_def approve_selected_def qs_update_def
      qs_filter_def qs_count_def all_rows_def ex_now_def date_lt_def Let_def
      item_loans_of_def current_loan_def)

text \<open>
  C6. \<open>mark_overdue_due\<close> sets a selected loan to OVERDUE exactly when it is BORROWED and
  its due date is strictly before today; every other loan is unchanged.
\<close>

theorem overdue_exactly_borrowed_and_past_due:
  assumes "i < length (loans d)"
  shows "loans (fst (mark_overdue_due now rq qs d)) ! i =
           (if qs (loans d ! i) \<and> loan_status (loans d ! i) = BORROWED
               \<and> date_lt (due_date (loans d ! i)) (dt_date now)
            then (loans d ! i)\<lparr>loan_status := OVERDUE\<rparr> else loans d ! i)
       \<and> length (loans (fst (mark_overdue_due now rq qs d))) = length (loans d)"
  using assms by (auto simp add: overdue_loans qs_update_nth qs_update_length qs_filter_def)

theorem overdue_exactly_borrowed_and_past_due_witness:
  "0 < length (loans ex_db) \<and> 1 < length (loans ex_db)
   \<and> loans (fst (mark_overdue_due ex_now ex_request all_rows ex_db)) ! 0
        = ex_loan_due\<lparr>loan_status := OVERDUE\<rparr>
   \<and> loans (fst (mark_overdue_due ex_now ex_request all_rows ex_db)) ! 1 = ex_loan_running"
  using overdue_exactly_borrowed_and_past_due [of 0 ex_db ex_now ex_request all_rows]
    overdue_exactly_borrowed_and_past_due [of 1 ex_db ex_now ex_request all_rows]
  by (simp add: ex_db_def all_rows_def ex_loan_due_def ex_loan_running_def ex_now_def date_lt_def)

section \<open>Users\<close>

text \<open>
  C9. \<open>deactivate_users\<close> never touches the row of the user who runs it; every other
  selected user gets \<open>is_active = False\<close>, and unselected users are unchanged.
\<close>

theorem deactivate_users_skips_self:
  assumes "i < length (users d)"
  shows "users (fst (deactivate_users rq qs d)) ! i =
           (if user_pk (users d ! i) = req_user rq then users d ! i
            else if qs (users d ! i) then (users d ! i)\<lparr>is_active := False\<rparr>
            else users d ! i)
       \<and> length (users (fst (deactivate_users rq qs d))) = length (users d)"
  using assms by (simp add: deactivated_users qs_update_nth qs_update_length qs_exclude_def)

theorem deactivate_users_skips_self_witness:
  "0 < length (users ex_db) \<and> 1 < length (users ex_db)
   \<and> users (fst (deactivate_users ex_request all_rows ex_db)) ! 0 = ex_admin
   \<and> users (fst (deactivate_users ex_request all_rows ex_db)) ! 1
        = ex_member\<lparr>is_active := False\<rparr>"
  using deactivate_users_skips_self [of 0 ex_db ex_request all_rows]
    deactivate_users_skips_self [of 1 ex_db ex_request all_rows]
  by (simp add: ex_db_def all_rows_def ex_admin_def ex_member_def ex_request_def)

section \<open>Properties of the query builder\<close>

lemma bind_err_Inr: "bind_err (Inr x) f = f x"
  by (simp add: bind_err_def)

lemma py_int_raises: "py_int s = Inl e \<Longrightarrow> e = ValueError"
  by (auto simp: py_int_def Let_def split: prod.splits option.splits)

lemma fromisoformat_raises: "fromisoformat s = Inl e \<Longrightarrow> e = ValueError"
  unfolding fromisoformat_def Let_def
  by (simp split: list.splits if_splits)

lemma parse_int_cases:
  "parse_int val =
     (case val of None \<Rightarrow> Inr None
      | Some v \<Rightarrow> if v = '''' then Inr None
                  else (case py_int v of Inl e \<Rightarrow> Inr None | Inr n \<Rightarrow> Inr (Some n)))"
proof (cases val)
  case None
  then show ?thesis by (simp add: parse_int_def except_ValueError_def)
next
  case (Some v)
  show ?thesis
  proof (cases "py_int v")
    case (Inl e)
    then have "e = ValueError" by (rule py_int_raises)
    with Inl Some show ?thesis
      by (simp add: parse_int_def except_ValueError_def bind_err_def)
  next
    case (Inr n)
    with Some show ?thesis
      by (simp add: parse_int_def except_ValueError_def bind_err_def)
  qed
qed

lemma parse_date_cases:
  "parse_date val =
     (case val of None \<Rightarrow> Inr None
      | Some v \<Rightarrow> if v = '''' then Inr None
                  else (case fromisoformat v of Inl e \<Rightarrow> Inr None | Inr n \<Rightarrow> Inr (Some n)))"
proof (cases val)
  case None
  then show ?thesis by (simp add: parse_date_def except_ValueError_def)
next
  case (Some v)
  show ?thesis
  proof (cases "fromisoformat v")
    case (Inl e)
    then have "e = ValueError" by (rule fromisoformat_raises)
    with Inl Some show ?thesis
      by (simp add: parse_date_def except_ValueError_def bind_err_def)
  next
    case (Inr n)
    with Some show ?thesis
      by (simp add: parse_date_def except_ValueError_def bind_err_def)
  qed
qed

lemma parse_int_total: "\<exists>r. parse_int val = Inr r"
  by (simp add: parse_int_cases split: option.splits sum.splits)

lemma parse_date_total: "\<exists>r. parse_date val = Inr r"
  by (simp add: parse_date_cases split: option.splits sum.splits)

lemma lookups_filter_if:
  "l \<in> set (lookups (filter_if c l' qs)) \<longleftrightarrow> (c \<and> l = l') \<or> l \<in> set (lookups qs)"
  by (auto simp: filter_if_def book_filter_def)

lemma lookups_filter_some:
  "l \<in> set (lookups (filter_some v key qs)) \<longleftrightarrow>
     (\<exists>x. v = Some x \<and> l = key x) \<or> l \<in> set (lookups qs)"
  by (auto simp: filter_some_def book_filter_def split: option.splits)

lemma lookups_base: "lookups (annotate_book_metrics Book_objects_all inc) = []"
  by (simp add: annotate_book_metrics_def Book_objects_all_def Let_def)

lemma items_status_lookups_filter_if:
  "items_status_lookups (filter_if c l qs) =
     items_status_lookups qs @ (if c then (case l of ItemsStatus s \<Rightarrow> [s] | _ \<Rightarrow> []) else [])"
  by (simp add: items_status_lookups_def filter_if_def book_filter_def)

lemma items_status_lookups_filter_some:
  "items_status_lookups (filter_some vi CategoriesId qs) = items_status_lookups qs"
  "items_status_lookups (filter_some vi AuthorsId qs) = items_status_lookups qs"
  "items_status_lookups (filter_some vi PublisherId qs) = items_status_lookups qs"
  "items_status_lookups (filter_some vi PublishYearGte qs) = items_status_lookups qs"
  "items_status_lookups (filter_some vi PublishYearLte qs) = items_status_lookups qs"
  "items_status_lookups (filter_some vd CreatedDateGte qs) = items_status_lookups qs"
  "items_status_lookups (filter_some vd CreatedDateLte qs) = items_status_lookups qs"
  by (simp_all add: items_status_lookups_def filter_some_def book_filter_def split: option.splits)

lemma items_status_lookups_base:
  "items_status_lookups (annotate_book_metrics Book_objects_all inc) = []"
  by (simp add: items_status_lookups_def lookups_base)

lemma items_status_lookups_update:
  "items_status_lookups (qs\<lparr>is_distinct := b\<rparr>) = items_status_lookups qs"
  "items_status_lookups (qs\<lparr>ordering := srt\<rparr>) = items_status_lookups qs"
  by (simp_all add: items_status_lookups_def)

lemma build_book_queryset_result:
  "\<exists>qs c a p yf yt cf ct.
      build_book_queryset params inc = Inr qs
      \<and> parse_int (py_or (params ''category_id'')
           (py_or (params ''categories__id__exact'') (params ''category__id__exact''))) = Inr c
      \<and> parse_int (py_or (params ''author_id'')
           (py_or (params ''authors__id__exact'') (params ''author__id__exact''))) = Inr a
      \<and> parse_int (py_or (params ''publisher_id'') (params ''publisher__id__exact'')) = Inr p
      \<and> parse_int (py_or (params ''publish_year_from'')
           (py_or (params ''publish_year__gte'') (params ''publish_year''))) = Inr yf
      \<and> parse_int (py_or (params ''publish_year_to'')
           (py_or (params ''publish_year__lte'') (params ''publish_year''))) = Inr yt
      \<and> parse_date (Some (py_strip (or_str (py_or (params ''created_from'')
           (params ''created_at__date__gte'')) ''''))) = Inr cf
      \<and> parse_date (Some (py_strip (or_str (py_or (params ''created_to'')
           (params ''created_at__date__lte'')) ''''))) = Inr ct
      \<and> ordering qs = Some (if py_strip (or_str (params ''sort'') ''title'') \<in> set allowed_sorts
                            then py_strip (or_str (params ''sort'') ''title'') else ''title'')
      \<and> is_distinct qs
      \<and> items_status_lookups qs =
          (if py_upper (py_strip (item_status_param params)) \<in> set item_statuses
           then [py_upper (py_strip (item_status_param params))] else [])
      \<and> (\<forall>n. CategoriesId n \<in> set (lookups qs) \<longleftrightarrow> c = Some n)
      \<and> (\<forall>n. AuthorsId n \<in> set (lookups qs) \<longleftrightarrow> a = Some n)
      \<and> (\<forall>n. PublisherId n \<in> set (lookups qs) \<longleftrightarrow> p = Some n)
      \<and> (\<forall>n. PublishYearGte n \<in> set (lookups qs) \<longleftrightarrow> yf = Some n)
      \<and> (\<forall>n. PublishYearLte n \<in> set (lookups qs) \<longleftrightarrow> yt = Some n)
      \<and> (\<forall>n. CreatedDateGte n \<in> set (lookups qs) \<longleftrightarrow> cf = Some n)
      \<and> (\<forall>n. CreatedDateLte n \<in> set (lookups qs) \<longleftrightarrow> ct = Some n)"
proof -
  obtain c where c: "parse_int (py_or (params ''category_id'')
                  (py_or (params ''categories__id__exact'') (params ''category__id__exact''))) = Inr c"
    using parse_int_total by blast
  obtain a where a: "parse_int (py_or (params ''author_id'')
                  (py_or (params ''authors__id__exact'') (params ''author__id__exact''))) = Inr a"
    using parse_int_total by blast
  obtain p where p: "parse_int (py_or (params ''publisher_id'') (params ''publisher__id__exact'')) = Inr p"
    using parse_int_total by blast
  obtain yf where yf: "parse_int (py_or (params ''publish_year_from'')
                  (py_or (params ''publish_year__gte'') (params ''publish_year''))) = Inr yf"
    using parse_int_total by blast
  obtain yt where yt: "parse_int (py_or (params ''publish_year_to'')
                  (py_or (params ''publish_year__lte'') (params ''publish_year''))) = Inr yt"
    using parse_int_total by blast
  obtain cf where cf: "parse_date (Some (py_strip (or_str (py_or (params ''created_from'')
                  (params ''created_at__date__gte'')) ''''))) = Inr cf"
    using parse_date_total by blast
  obtain ct where ct: "parse_date (Some (py_strip (or_str (py_or (params ''created_to'')
                  (params ''created_at__date__lte'')) ''''))) = Inr ct"
    using parse_date_total by blast
  show ?thesis
    unfolding build_book_queryset_def Let_def c a p yf yt cf ct bind_err_Inr
    by (simp add: items_status_lookups_filter_if items_status_lookups_filter_some
        items_status_lookups_base items_status_lookups_update
        item_status_param_def lookups_filter_if lookups_filter_some lookups_base eq_commute)
qed


section \<open>The book query\<close>

text \<open>
  C7. \<open>build_book_queryset\<close> always returns a query, and that query carries an item-status
  lookup exactly when the supplied value, trimmed and uppercased, is one of the five
  BookItem statuses; the lookup then compares with that value. For any other value the
  query has no item-status lookup.
\<close>

theorem item_status_filter_iff_valid:
  "\<exists>qs. build_book_queryset params include_items = Inr qs
      \<and> items_status_lookups qs =
          (if py_upper (py_strip (item_status_param params))
                \<in> {''AVAILABLE'', ''RESERVED'', ''LOANED'', ''LOST'', ''DAMAGED''}
           then [py_upper (py_strip (item_status_param params))] else [])"
proof -
  obtain qs where "build_book_queryset params include_items = Inr qs"
    and "items_status_lookups qs =
          (if py_upper (py_strip (item_status_param params)) \<in> set item_statuses
           then [py_upper (py_strip (item_status_param params))] else [])"
    using build_book_queryset_result [of params include_items] by blast
  then show ?thesis by (simp add: item_statuses_def)
qed

theorem item_status_filter_iff_valid_witness:
  "map_sum id items_status_lookups (build_book_queryset ex_params False) = Inr [''LOST'']
   \<and> map_sum id items_status_lookups (build_book_queryset ex_params_bad_status True) = Inr []"
proof -
  have a: "py_upper (py_strip (item_status_param ex_params)) = ''LOST''"
    by code_simp
  have b: "py_upper (py_strip (item_status_param ex_params_bad_status)) = ''SOLD''"
    by code_simp
  show ?thesis
    using item_status_filter_iff_valid [of ex_params False]
      item_status_filter_iff_valid [of ex_params_bad_status True]
    unfolding a b by auto
qed



section \<open>The export\<close>





end
